theory Spec2Isabelle
  imports Main "HOL-Library.Sublist"
begin

section \<open>Python values\<close>

text \<open>
  The client of \<^verbatim>\<open>opa_client/opa.py\<close> handles strings and the documents that
  \<^verbatim>\<open>json.loads\<close> returns. A string is a list of code points below 256. A document is
  \<^verbatim>\<open>None\<close>, a bool, an integer, a string, a list or a dict; a dict is an association
  list with distinct keys, read with \<^const>\<open>map_of\<close>. Non-integer numbers are left out:
  no operation below treats them differently from an integer other than zero.
\<close>

datatype json =
    JNull
  | JBool bool
  | JNum int
  | JStr string
  | JArr "json list"
  | JObj "(string \<times> json) list"

text \<open>
  The exceptions of Python and of \<^verbatim>\<open>OpaExceptions\<close>. The classes of
  \<^verbatim>\<open>OpaExceptions\<close> are built from two arguments, kept here as they are passed.
  \<open>ValueError\<close> stands for a body that \<^verbatim>\<open>json.loads\<close> or \<^verbatim>\<open>.json()\<close> rejects,
  \<open>OSError\<close> for a file that cannot be opened, and \<open>TransportError\<close> for a request that
  the HTTP library gives up on.
\<close>

datatype error =
    AttributeError
  | TypeError
  | ValueError
  | UnboundLocalError
  | OSError
  | TransportError
  | SSLError string string
  | RegoParseError json json
  | PolicyNotFoundError json json
  | DeleteDataError json json
  | CheckPermissionError string string

definition and_then :: "error + 'a \<Rightarrow> ('a \<Rightarrow> error + 'b) \<Rightarrow> error + 'b" where
  "and_then m f = (case m of Inl e \<Rightarrow> Inl e | Inr x \<Rightarrow> f x)"

text \<open>Truth value of a document, as \<^verbatim>\<open>if x:\<close> and \<^verbatim>\<open>not x\<close> test it.\<close>

fun truthy :: "json \<Rightarrow> bool" where
  "truthy JNull = False"
| "truthy (JBool b) = b"
| "truthy (JNum n) = (n \<noteq> 0)"
| "truthy (JStr s) = (s \<noteq> [])"
| "truthy (JArr xs) = (xs \<noteq> [])"
| "truthy (JObj kvs) = (kvs \<noteq> [])"

text \<open>Truth value of an optional string argument (\<^verbatim>\<open>None\<close> or a \<^verbatim>\<open>str\<close>).\<close>

fun truthy_str :: "string option \<Rightarrow> bool" where
  "truthy_str None = False"
| "truthy_str (Some s) = (s \<noteq> [])"

text \<open>\<^verbatim>\<open>x.get(k)\<close>: only a dict has the method; a missing key gives \<^verbatim>\<open>None\<close>.\<close>

definition dict_get :: "(string \<times> json) list \<Rightarrow> string \<Rightarrow> json" where
  "dict_get kvs k = (case map_of kvs k of None \<Rightarrow> JNull | Some v \<Rightarrow> v)"

fun py_get :: "json \<Rightarrow> string \<Rightarrow> error + json" where
  "py_get (JObj kvs) k = Inr (dict_get kvs k)"
| "py_get JNull k = Inl AttributeError"
| "py_get (JBool b) k = Inl AttributeError"
| "py_get (JNum n) k = Inl AttributeError"
| "py_get (JStr s) k = Inl AttributeError"
| "py_get (JArr xs) k = Inl AttributeError"

text \<open>
  \<^verbatim>\<open>for x in v\<close>: a list gives its elements, a dict its keys, a string its characters;
  anything else is not iterable.
\<close>

fun py_iter :: "json \<Rightarrow> error + json list" where
  "py_iter (JArr xs) = Inr xs"
| "py_iter (JObj kvs) = Inr (map (\<lambda>kv. JStr (fst kv)) kvs)"
| "py_iter (JStr s) = Inr (map (\<lambda>c. JStr [c]) s)"
| "py_iter JNull = Inl TypeError"
| "py_iter (JBool b) = Inl TypeError"
| "py_iter (JNum n) = Inl TypeError"

text \<open>\<^verbatim>\<open>s + v\<close> for a string \<open>s\<close>: only a string can be appended.\<close>

fun str_add :: "string \<Rightarrow> json \<Rightarrow> error + string" where
  "str_add s (JStr t) = Inr (s @ t)"
| "str_add s JNull = Inl TypeError"
| "str_add s (JBool b) = Inl TypeError"
| "str_add s (JNum n) = Inl TypeError"
| "str_add s (JArr xs) = Inl TypeError"
| "str_add s (JObj kvs) = Inl TypeError"

text \<open>A dict key must be hashable: lists and dicts are not.\<close>

fun hashable :: "json \<Rightarrow> bool" where
  "hashable (JArr xs) = False"
| "hashable (JObj kvs) = False"
| "hashable JNull = True"
| "hashable (JBool b) = True"
| "hashable (JNum n) = True"
| "hashable (JStr s) = True"

section \<open>String helpers\<close>

text \<open>
  \<^verbatim>\<open>str.lstrip()\<close> drops the leading characters for which \<^verbatim>\<open>str.isspace\<close> holds;
  below code point 256 these are 9 to 13, 28 to 32, 133 and 160.
\<close>

definition isspace :: "char \<Rightarrow> bool" where
  "isspace c = (let n = (of_char c :: nat) in
     (9 \<le> n \<and> n \<le> 13) \<or> (28 \<le> n \<and> n \<le> 32) \<or> n = 133 \<or> n = 160)"

definition lstrip :: "string \<Rightarrow> string" where
  "lstrip s = dropWhile isspace s"

definition startswith :: "string \<Rightarrow> string \<Rightarrow> bool" where
  "startswith s p = prefix p s"

text \<open>\<^verbatim>\<open>"{}".format(n)\<close> for an integer: its decimal digits.\<close>

definition digit :: "nat \<Rightarrow> char" where
  "digit d = ''0123456789'' ! d"

fun decimal :: "nat \<Rightarrow> string" where
  "decimal n = (if n < 10 then [digit n] else decimal (n div 10) @ [digit (n mod 10)])"

definition str_of_int :: "int \<Rightarrow> string" where
  "str_of_int i = (if i < 0 then CHR ''-'' # decimal (nat (- i)) else decimal (nat i))"

section \<open>Requests, responses and the world outside\<close>

text \<open>
  The two transports (a \<^verbatim>\<open>requests.Session\<close> in plain mode, a certificate-checking
  \<^verbatim>\<open>urllib3\<close> pool in secure mode) are collaborators. A request records the verb, the URL,
  what is sent as body and whether the client's headers are passed; retry counts and
  timeouts belong to the transport. A response is a status and the bytes of the body.
\<close>

datatype payload =
    No_Payload
  | Json_Payload json
  | Encoded string

record request =
  verb :: string
  url :: string
  payload :: payload
  sent_headers :: "(string \<times> string) list option"

record response =
  status :: int
  data :: string

text \<open>
  Everything the client does to the outside is appended to a log. The service answers a
  request given the log so far, or the transport raises. \<open>loads\<close> is
  \<^verbatim>\<open>json.loads\<close> after decoding the bytes (\<open>None\<close>: it raises), \<open>dumps\<close> is
  \<^verbatim>\<open>json.dumps\<close>, \<open>files\<close> the content of the readable files.
\<close>

datatype event =
    Sent request
  | Opened string

record io =
  service :: "event list \<Rightarrow> request \<Rightarrow> error + response"
  loads :: "string \<Rightarrow> json option"
  dumps :: "json \<Rightarrow> string"
  files :: "string \<Rightarrow> string option"

definition send :: "io \<Rightarrow> request \<Rightarrow> event list \<Rightarrow> (error + response) \<times> event list" where
  "send w rq log = (service w log rq, log @ [Sent rq])"

definition read_file :: "io \<Rightarrow> string \<Rightarrow> event list \<Rightarrow> (error + string) \<times> event list" where
  "read_file w p log =
     ((case files w p of None \<Rightarrow> Inl OSError | Some s \<Rightarrow> Inr s), log @ [Opened p])"

text \<open>The body of a response as a document: \<^verbatim>\<open>response.json()\<close> and
  \<^verbatim>\<open>json.loads(response.data.decode("utf-8"))\<close>.\<close>

definition decode :: "io \<Rightarrow> response \<Rightarrow> error + json" where
  "decode w resp = (case loads w (data resp) of None \<Rightarrow> Inl ValueError | Some j \<Rightarrow> Inr j)"

section \<open>The client\<close>

datatype port = Port_Int int | Port_Str string

fun format_port :: "port \<Rightarrow> string" where
  "format_port (Port_Int n) = str_of_int n"
| "format_port (Port_Str s) = s"

record client =
  host :: string
  port :: port
  version :: string
  secure :: bool
  schema :: string
  cert :: "string option"
  root_url :: string
  headers :: "(string \<times> string) list"

text \<open>The templates \<^verbatim>\<open>"{}/policies/{}"\<close> and \<^verbatim>\<open>"{}/data/{}"\<close>, filled with the
  root URL and a name.\<close>

definition policy_root :: "client \<Rightarrow> string \<Rightarrow> string" where
  "policy_root c name = root_url c @ ''/policies/'' @ name"

definition data_root :: "client \<Rightarrow> string \<Rightarrow> string" where
  "data_root c name = root_url c @ ''/data/'' @ name"

subsection \<open>\<^verbatim>\<open>__update_opa_data\<close>\<close>

definition update_data_request :: "io \<Rightarrow> client \<Rightarrow> json \<Rightarrow> string \<Rightarrow> request" where
  "update_data_request w c new_data endpoint =
     (if \<not> secure c
      then \<lparr>verb = ''PUT'', url = data_root c endpoint,
            payload = Json_Payload new_data, sent_headers = None\<rparr>
      else \<lparr>verb = ''PUT'', url = data_root c endpoint,
            payload = Encoded (dumps w new_data), sent_headers = Some (headers c)\<rparr>)"

definition update_opa_data ::
  "io \<Rightarrow> client \<Rightarrow> json \<Rightarrow> string \<Rightarrow> event list \<Rightarrow> (error + bool) \<times> event list" where
  "update_opa_data w c new_data endpoint log =
     (case send w (update_data_request w c new_data endpoint) log of
        (r, log') \<Rightarrow>
          (and_then r (\<lambda>resp. Inr (if status resp = 204 then True else False)), log'))"

subsection \<open>\<^verbatim>\<open>__update_opa_policy_fromstring\<close> and \<^verbatim>\<open>__update_opa_policy_fromfile\<close>\<close>

definition update_policy_request :: "client \<Rightarrow> string \<Rightarrow> string \<Rightarrow> request" where
  "update_policy_request c new_policy endpoint =
     \<lparr>verb = ''PUT'', url = policy_root c endpoint,
      payload = Encoded new_policy, sent_headers = Some (headers c)\<rparr>"

text \<open>Raising an exception class on \<^verbatim>\<open>.get("code")\<close> and \<^verbatim>\<open>.get("message")\<close>
  of a decoded body, the code first.\<close>

definition raise_from :: "(json \<Rightarrow> json \<Rightarrow> error) \<Rightarrow> json \<Rightarrow> error + 'a" where
  "raise_from exn body =
     and_then (py_get body ''code'') (\<lambda>code.
       and_then (py_get body ''message'') (\<lambda>message. Inl (exn code message)))"

definition update_opa_policy_fromstring ::
  "io \<Rightarrow> client \<Rightarrow> string option \<Rightarrow> string \<Rightarrow> event list \<Rightarrow> (error + bool) \<times> event list" where
  "update_opa_policy_fromstring w c new_policy endpoint log =
     (if truthy_str new_policy then
        (case send w (update_policy_request c (the new_policy) endpoint) log of
           (r, log') \<Rightarrow>
             (and_then r (\<lambda>resp.
                if status resp = 200 then Inr True
                else and_then (decode w resp) (raise_from RegoParseError)), log'))
      else (Inr False, log))"

text \<open>A falsy path falls off the end of the function, which returns \<^verbatim>\<open>None\<close>.\<close>

definition update_opa_policy_fromfile ::
  "io \<Rightarrow> client \<Rightarrow> string option \<Rightarrow> string \<Rightarrow> event list
     \<Rightarrow> (error + bool option) \<times> event list" where
  "update_opa_policy_fromfile w c filepath endpoint log =
     (if truthy_str filepath then
        (case read_file w (the filepath) log of
           (Inl e, log') \<Rightarrow> (Inl e, log')
         | (Inr text, log') \<Rightarrow>
             (case update_opa_policy_fromstring w c (Some text) endpoint log' of
                (r, log'') \<Rightarrow> (and_then r (\<lambda>b. Inr (Some b)), log'')))
      else (Inr None, log))"

subsection \<open>\<^verbatim>\<open>__get_opa_raw_data\<close>\<close>

text \<open>The function returns the document, or the pair of the status and
  \<^verbatim>\<open>"not found"\<close>.\<close>

datatype raw_data =
    Document json
  | Status_Pair int string

definition raw_data_request :: "client \<Rightarrow> string \<Rightarrow> request" where
  "raw_data_request c data_name =
     (if \<not> secure c
      then \<lparr>verb = ''GET'', url = data_root c data_name,
            payload = No_Payload, sent_headers = None\<rparr>
      else \<lparr>verb = ''GET'', url = data_root c data_name,
            payload = No_Payload, sent_headers = Some (headers c)\<rparr>)"

text \<open>In plain mode the body is read with \<^verbatim>\<open>response.jsons()\<close>, which a
  \<^verbatim>\<open>requests\<close> response does not have.\<close>

definition get_opa_raw_data ::
  "io \<Rightarrow> client \<Rightarrow> string \<Rightarrow> event list \<Rightarrow> (error + raw_data) \<times> event list" where
  "get_opa_raw_data w c data_name log =
     (case send w (raw_data_request c data_name) log of
        (r, log') \<Rightarrow>
          (and_then r (\<lambda>resp.
             if \<not> secure c then Inl AttributeError
             else and_then (decode w resp) (\<lambda>body.
               Inr (if status resp = 200 then Document body
                    else Status_Pair (status resp) ''not found''))), log'))"

subsection \<open>\<^verbatim>\<open>__delete_opa_policy\<close> and \<^verbatim>\<open>__delete_opa_data\<close>\<close>

definition delete_policy_request :: "client \<Rightarrow> string \<Rightarrow> request" where
  "delete_policy_request c policy_name =
     \<lparr>verb = ''DELETE'', url = policy_root c policy_name,
      payload = No_Payload, sent_headers = Some (headers c)\<rparr>"

text \<open>Secure mode decodes the body before it looks at the status.\<close>

definition delete_opa_policy ::
  "io \<Rightarrow> client \<Rightarrow> string \<Rightarrow> event list \<Rightarrow> (error + bool) \<times> event list" where
  "delete_opa_policy w c policy_name log =
     (case send w (delete_policy_request c policy_name) log of
        (r, log') \<Rightarrow>
          (and_then r (\<lambda>resp.
             if \<not> secure c then
               (if status resp = 200 then Inr True
                else and_then (decode w resp) (raise_from PolicyNotFoundError))
             else and_then (decode w resp) (\<lambda>body.
               if status resp = 200 then Inr True
               else raise_from PolicyNotFoundError body)), log'))"

definition delete_data_request :: "client \<Rightarrow> string \<Rightarrow> request" where
  "delete_data_request c data_name =
     \<lparr>verb = ''DELETE'', url = data_root c data_name,
      payload = No_Payload, sent_headers = Some (headers c)\<rparr>"

text \<open>Secure mode decodes the body only when it is not empty; the final
  \<^verbatim>\<open>raise\<close> then reads a variable that an empty body never bound.\<close>

definition delete_opa_data ::
  "io \<Rightarrow> client \<Rightarrow> string \<Rightarrow> event list \<Rightarrow> (error + bool) \<times> event list" where
  "delete_opa_data w c data_name log =
     (case send w (delete_data_request c data_name) log of
        (r, log') \<Rightarrow>
          (and_then r (\<lambda>resp.
             if \<not> secure c then
               (if status resp = 204 then Inr True
                else and_then (decode w resp) (raise_from DeleteDataError))
             else if data resp \<noteq> [] then
               and_then (decode w resp) (\<lambda>body.
                 if status resp = 204 then Inr True
                 else raise_from DeleteDataError body)
             else if status resp = 204 then Inr True
             else Inl UnboundLocalError), log'))"

subsection \<open>\<^verbatim>\<open>__init__\<close>\<close>

text \<open>
  The header set (the defaults of \<^verbatim>\<open>requests\<close>, merged with the caller's headers or
  with a generated user agent) and the session object are built by the libraries; the
  header set is passed in as \<open>hdrs\<close>.
\<close>

definition init ::
  "string \<Rightarrow> port \<Rightarrow> string \<Rightarrow> bool \<Rightarrow> string option \<Rightarrow> (string \<times> string) list
     \<Rightarrow> error + client" where
  "init host0 port0 version0 ssl cert0 hdrs =
     (let h = lstrip host0;
          sec = (if ssl then True else False);
          sch = (if ssl then ''https://'' else ''http://'');
          crt = (if ssl then cert0 else None)
      in
        if \<not> truthy_str cert0 \<and> ssl
        then Inl (SSLError ''ssl=True'' ''Make sure you  provide cert file'')
        else if startswith h ''https://''
        then Inr \<lparr>host = h, port = port0, version = version0, secure = sec, schema = sch,
                  cert = crt, root_url = h @ '':'' @ format_port port0 @ ''/'' @ version0,
                  headers = hdrs\<rparr>
        else if startswith h ''http://''
        then (if sec
              then Inl (SSLError ''ssl=True''
                     ''With ssl enabled not possible to have connection with http'')
              else Inr \<lparr>host = h, port = port0, version = version0, secure = sec, schema = sch,
                        cert = crt, root_url = h @ '':'' @ format_port port0 @ ''/'' @ version0,
                        headers = hdrs\<rparr>)
        else Inr \<lparr>host = h, port = port0, version = version0, secure = sec, schema = sch,
                  cert = crt,
                  root_url = sch @ h @ '':'' @ format_port port0 @ ''/'' @ version0,
                  headers = hdrs\<rparr>)"

subsection \<open>The walk over a policy's syntax tree\<close>

text \<open>
  Both \<^verbatim>\<open>__get_policies_info\<close> and \<^verbatim>\<open>__check\<close> run the loop
  \<^verbatim>\<open>for path in x.get("ast").get("package").get("path"):
      permission_url += "/" + path.get("value")\<close>
  on a policy \<open>x\<close>, starting from the root URL.
\<close>

definition package_path :: "json \<Rightarrow> error + json list" where
  "package_path x =
     and_then (py_get x ''ast'') (\<lambda>ast.
       and_then (py_get ast ''package'') (\<lambda>package.
         and_then (py_get package ''path'') py_iter))"

fun walk_path :: "string \<Rightarrow> json list \<Rightarrow> error + string" where
  "walk_path permission_url [] = Inr permission_url"
| "walk_path permission_url (p # ps) =
     (case py_get p ''value'' of
        Inl e \<Rightarrow> Inl e
      | Inr v \<Rightarrow>
          (case str_add ''/'' v of
             Inl e \<Rightarrow> Inl e
           | Inr s \<Rightarrow> walk_path (permission_url @ s) ps))"

definition namespace_url :: "string \<Rightarrow> json \<Rightarrow> error + string" where
  "namespace_url root x = and_then (package_path x) (walk_path root)"

definition ast_rules :: "json \<Rightarrow> error + json list" where
  "ast_rules x =
     and_then (py_get x ''ast'') (\<lambda>ast. and_then (py_get ast ''rules'') py_iter)"

subsection \<open>\<^verbatim>\<open>__get_policies_info\<close>\<close>

text \<open>The loop over the rules: a rule whose \<^verbatim>\<open>default\<close> is falsy is skipped, any other
  appends the namespace URL, a slash and the name of its head.\<close>

fun list_rules :: "string \<Rightarrow> json list \<Rightarrow> string list \<Rightarrow> error + string list" where
  "list_rules permission_url [] temp_rules = Inr temp_rules"
| "list_rules permission_url (rule # rs) temp_rules =
     (case py_get rule ''default'' of
        Inl e \<Rightarrow> Inl e
      | Inr d \<Rightarrow>
          if \<not> truthy d then list_rules permission_url rs temp_rules
          else
            (case py_get rule ''head'' of
               Inl e \<Rightarrow> Inl e
             | Inr head \<Rightarrow>
                 (case py_get head ''name'' of
                    Inl e \<Rightarrow> Inl e
                  | Inr name \<Rightarrow>
                      (case str_add ''/'' name of
                         Inl e \<Rightarrow> Inl e
                       | Inr s \<Rightarrow>
                           list_rules permission_url rs
                             (temp_rules @ [permission_url @ s])))))"

record policy_info =
  path :: "string list"
  rules :: "string list"

text \<open>
  \<^verbatim>\<open>temp_dict[key] = entry\<close>. A dict keeps insertion order; a key that is already
  there keeps its place and its first spelling and only the entry is replaced. Keys are
  equal when their values are, and a bool is the integer 0 or 1: \<^verbatim>\<open>True\<close> and
  \<^verbatim>\<open>1\<close> are one key.
\<close>

fun key_value :: "json \<Rightarrow> json" where
  "key_value (JBool b) = JNum (if b then 1 else 0)"
| "key_value JNull = JNull"
| "key_value (JNum n) = JNum n"
| "key_value (JStr s) = JStr s"
| "key_value (JArr xs) = JArr xs"
| "key_value (JObj kvs) = JObj kvs"

fun dict_set :: "json \<Rightarrow> 'v \<Rightarrow> (json \<times> 'v) list \<Rightarrow> (json \<times> 'v) list" where
  "dict_set key entry [] = [(key, entry)]"
| "dict_set key entry (kv # kvs) =
     (if key_value (fst kv) = key_value key then (fst kv, entry) # kvs
      else kv # dict_set key entry kvs)"

text \<open>One round of the loop over the policies: the key and the entry it stores.\<close>

definition policy_entry :: "string \<Rightarrow> json \<Rightarrow> error + json \<times> policy_info" where
  "policy_entry root policy =
     and_then (namespace_url root policy) (\<lambda>permission_url.
       and_then (ast_rules policy) (\<lambda>rs.
         and_then (list_rules permission_url rs []) (\<lambda>temp_rules.
           and_then (py_get policy ''id'') (\<lambda>key.
             if hashable key
             then Inr (key, \<lparr>path = [permission_url], rules = temp_rules\<rparr>)
             else Inl TypeError))))"

fun policies_loop ::
  "string \<Rightarrow> json list \<Rightarrow> (json \<times> policy_info) list \<Rightarrow> error + (json \<times> policy_info) list" where
  "policies_loop root [] temp_dict = Inr temp_dict"
| "policies_loop root (policy # ps) temp_dict =
     (case policy_entry root policy of
        Inl e \<Rightarrow> Inl e
      | Inr (key, entry) \<Rightarrow> policies_loop root ps (dict_set key entry temp_dict))"

definition policies_info_request :: "client \<Rightarrow> request" where
  "policies_info_request c =
     (if \<not> secure c
      then \<lparr>verb = ''GET'', url = policy_root c [],
            payload = No_Payload, sent_headers = None\<rparr>
      else \<lparr>verb = ''GET'', url = policy_root c [],
            payload = No_Payload, sent_headers = Some (headers c)\<rparr>)"

definition get_policies_info ::
  "io \<Rightarrow> client \<Rightarrow> event list \<Rightarrow> (error + (json \<times> policy_info) list) \<times> event list" where
  "get_policies_info w c log =
     (case send w (policies_info_request c) log of
        (r, log') \<Rightarrow>
          (and_then r (\<lambda>resp.
             and_then (decode w resp) (\<lambda>policy.
               and_then (py_get policy ''result'') (\<lambda>result.
                 and_then (py_iter result) (\<lambda>ps.
                   policies_loop (root_url c) ps [])))), log'))"

subsection \<open>\<^verbatim>\<open>__check\<close>\<close>

text \<open>The loop over the rules: every rule with a truthy \<^verbatim>\<open>default\<close> whose head name
  equals the requested name appends a slash and that name and sets \<^verbatim>\<open>find\<close>.\<close>

fun match_rules :: "string \<Rightarrow> json list \<Rightarrow> string \<times> bool \<Rightarrow> error + string \<times> bool" where
  "match_rules rule_name [] st = Inr st"
| "match_rules rule_name (rule # rs) (permission_url, find_flag) =
     (case py_get rule ''default'' of
        Inl e \<Rightarrow> Inl e
      | Inr d \<Rightarrow>
          if \<not> truthy d then match_rules rule_name rs (permission_url, find_flag)
          else
            (case py_get rule ''head'' of
               Inl e \<Rightarrow> Inl e
             | Inr head \<Rightarrow>
                 (case py_get head ''name'' of
                    Inl e \<Rightarrow> Inl e
                  | Inr name \<Rightarrow>
                      if name = JStr rule_name
                      then match_rules rule_name rs
                             (permission_url @ ''/'' @ rule_name, True)
                      else match_rules rule_name rs (permission_url, find_flag))))"

text \<open>The part of \<^verbatim>\<open>__check\<close> between the two requests: the URL to post to and
  \<^verbatim>\<open>find\<close>.\<close>

definition resolve_rule :: "string \<Rightarrow> json \<Rightarrow> string \<Rightarrow> error + string \<times> bool" where
  "resolve_rule root result rule_name =
     (if truthy result then
        and_then (namespace_url root result) (\<lambda>permission_url.
          and_then (ast_rules result) (\<lambda>rs.
            match_rules rule_name rs (permission_url, False)))
      else Inr (root, False))"

definition check_get_request :: "client \<Rightarrow> string \<Rightarrow> request" where
  "check_get_request c policy_name =
     (if \<not> secure c
      then \<lparr>verb = ''GET'', url = policy_root c policy_name,
            payload = No_Payload, sent_headers = None\<rparr>
      else \<lparr>verb = ''GET'', url = policy_root c policy_name,
            payload = No_Payload, sent_headers = Some (headers c)\<rparr>)"

definition check_post_request :: "io \<Rightarrow> client \<Rightarrow> string \<Rightarrow> json \<Rightarrow> request" where
  "check_post_request w c permission_url input_data =
     (if \<not> secure c
      then \<lparr>verb = ''POST'', url = permission_url,
            payload = Json_Payload input_data, sent_headers = None\<rparr>
      else \<lparr>verb = ''POST'', url = permission_url,
            payload = Encoded (dumps w input_data), sent_headers = None\<rparr>)"

text \<open>The exception at the end of \<^verbatim>\<open>__check\<close>, built from
  \<^verbatim>\<open>f"{rule_name} rule not found"\<close> and a fixed second text.\<close>

definition rule_not_found :: "string \<Rightarrow> error" where
  "rule_not_found rule_name =
     CheckPermissionError (rule_name @ '' rule not found'') ''policy or rule name not correct''"

definition check ::
  "io \<Rightarrow> client \<Rightarrow> json \<Rightarrow> string \<Rightarrow> string \<Rightarrow> event list \<Rightarrow> (error + json) \<times> event list" where
  "check w c input_data policy_name rule_name log =
     (case send w (check_get_request c policy_name) log of
        (r, log1) \<Rightarrow>
          (case and_then r (\<lambda>resp.
                  and_then (decode w resp) (\<lambda>policy.
                    and_then (py_get policy ''result'') (\<lambda>result.
                      resolve_rule (root_url c) result rule_name))) of
             Inl e \<Rightarrow> (Inl e, log1)
           | Inr (permission_url, find_flag) \<Rightarrow>
               if find_flag then
                 (case send w (check_post_request w c permission_url input_data) log1 of
                    (r2, log2) \<Rightarrow>
                      (and_then r2 (\<lambda>response.
                         if \<not> secure c then decode w response
                         else if data response \<noteq> [] then decode w response
                         else Inl (rule_not_found rule_name)), log2))
               else (Inl (rule_not_found rule_name), log1)))"

section \<open>Reading a syntax tree\<close>

text \<open>
  What the walk needs of its input, in the words of the service's contract: a path
  segment has a string under \<^verbatim>\<open>value\<close>; a rule is a dict, it is default-marked when
  its \<^verbatim>\<open>default\<close> is truthy, and a default-marked rule has a dict under
  \<^verbatim>\<open>head\<close> with a string under \<^verbatim>\<open>name\<close>.
\<close>

definition segment_value :: "json \<Rightarrow> string option" where
  "segment_value p =
     (case py_get p ''value'' of
        Inl e \<Rightarrow> None
      | Inr v \<Rightarrow> (case v of JStr s \<Rightarrow> Some s | _ \<Rightarrow> None))"

definition default_marked :: "json \<Rightarrow> bool" where
  "default_marked rule =
     (case py_get rule ''default'' of Inl e \<Rightarrow> False | Inr d \<Rightarrow> truthy d)"

definition head_name :: "json \<Rightarrow> string option" where
  "head_name rule =
     (case py_get rule ''head'' of
        Inl e \<Rightarrow> None
      | Inr head \<Rightarrow>
          (case py_get head ''name'' of
             Inl e \<Rightarrow> None
           | Inr v \<Rightarrow> (case v of JStr s \<Rightarrow> Some s | _ \<Rightarrow> None)))"

fun is_dict :: "json \<Rightarrow> bool" where
  "is_dict (JObj kvs) = True"
| "is_dict JNull = False"
| "is_dict (JBool b) = False"
| "is_dict (JNum n) = False"
| "is_dict (JStr s) = False"
| "is_dict (JArr xs) = False"

definition rule_ok :: "json \<Rightarrow> bool" where
  "rule_ok rule = (is_dict rule \<and> (default_marked rule \<longrightarrow> head_name rule \<noteq> None))"

text \<open>The default-marked rules with a given name, and the endpoint of a rule under a
  namespace URL.\<close>

definition default_rules_named :: "string \<Rightarrow> json list \<Rightarrow> json list" where
  "default_rules_named name rs =
     filter (\<lambda>rule. default_marked rule \<and> head_name rule = Some name) rs"


definition join_segments :: "string \<Rightarrow> string list \<Rightarrow> string" where
  "join_segments root vs = root @ concat (map (\<lambda>v. ''/'' @ v) vs)"

section \<open>Concrete worlds\<close>

text \<open>A client in either mode and a service that gives every request the same answer,
  used to run the operations on concrete inputs.\<close>

definition demo_client :: "bool \<Rightarrow> client" where
  "demo_client sec =
     \<lparr>host = ''h'', port = Port_Int 8181, version = ''v1'', secure = sec,
      schema = (if sec then ''https://'' else ''http://''),
      cert = (if sec then Some ''ca.pem'' else None),
      root_url = (if sec then ''https://h:8181/v1'' else ''http://h:8181/v1''),
      headers = [(''User-Agent'', ''demo'')]\<rparr>"

definition demo_loads :: "string \<Rightarrow> json option" where
  "demo_loads s =
     (if s = ''<error>''
        then Some (JObj [(''code'', JStr ''resource_not_found''), (''message'', JStr ''gone'')])
      else if s = ''<empty object>'' then Some (JObj [])
      else if s = ''<true>'' then Some (JObj [(''result'', JBool True)])
      else None)"

definition demo_io :: "int \<Rightarrow> string \<Rightarrow> io" where
  "demo_io st body =
     \<lparr>service = (\<lambda>log rq. Inr \<lparr>status = st, data = body\<rparr>),
      loads = demo_loads, dumps = (\<lambda>j. ''<dumped>''), files = (\<lambda>p. None)\<rparr>"

text \<open>The policy \<^verbatim>\<open>play\<close> as the service describes it: the package path
  \<^verbatim>\<open>data.play\<close>, a default rule \<^verbatim>\<open>hello\<close> and a rule \<^verbatim>\<open>secret\<close> that is not
  default-marked.\<close>

definition demo_segments :: "json list" where
  "demo_segments =
     [JObj [(''type'', JStr ''var''), (''value'', JStr ''data'')],
      JObj [(''type'', JStr ''string''), (''value'', JStr ''play'')]]"

definition demo_rules :: "json list" where
  "demo_rules =
     [JObj [(''default'', JBool True), (''head'', JObj [(''name'', JStr ''hello'')])],
      JObj [(''head'', JObj [(''name'', JStr ''secret'')])]]"

definition demo_package :: json where
  "demo_package = JObj [(''path'', JArr demo_segments)]"

definition demo_ast :: json where
  "demo_ast = JObj [(''package'', demo_package), (''rules'', JArr demo_rules)]"

definition demo_policy :: json where
  "demo_policy =
     JObj [(''id'', JStr ''play''), (''raw'', JStr ''package play''), (''ast'', demo_ast)]"

text \<open>A policy whose package has no \<^verbatim>\<open>path\<close>.\<close>

definition pathless_policy :: json where
  "pathless_policy =
     JObj [(''id'', JStr ''play''),
           (''ast'', JObj [(''package'', JObj []), (''rules'', JArr [])])]"

text \<open>A policy whose package path is the empty list.\<close>

definition empty_path_policy :: json where
  "empty_path_policy =
     JObj [(''id'', JStr ''root''),
           (''ast'', JObj [(''package'', JObj [(''path'', JArr [])]), (''rules'', JArr [])])]"

text \<open>A service that answers a GET with one body and anything else with another, both
  with status 200, and the decoder for the bodies it uses.\<close>

definition opa_loads :: "string \<Rightarrow> json option" where
  "opa_loads s =
     (if s = ''<policy>'' then Some (JObj [(''result'', demo_policy)])
      else if s = ''<policies>'' then Some (JObj [(''result'', JArr [demo_policy])])
      else if s = ''<pathless policy>'' then Some (JObj [(''result'', pathless_policy)])
      else if s = ''<pathless policies>''
        then Some (JObj [(''result'', JArr [pathless_policy])])
      else if s = ''<true>'' then Some (JObj [(''result'', JBool True)])
      else None)"

definition opa_io :: "string \<Rightarrow> string \<Rightarrow> io" where
  "opa_io got posted =
     \<lparr>service = (\<lambda>log rq.
        if verb rq = ''GET'' then Inr \<lparr>status = 200, data = got\<rparr>
        else Inr \<lparr>status = 200, data = posted\<rparr>),
      loads = opa_loads, dumps = (\<lambda>j. ''<dumped>''), files = (\<lambda>p. None)\<rparr>"

section \<open>Properties\<close>

subsection \<open>Data update\<close>

text \<open>
  C4. Whenever the service answers the PUT of \<^verbatim>\<open>update_or_create_opa_data\<close>, in either
  mode and for every payload and endpoint, the call returns a bool and raises nothing:
  \<open>True\<close> if the status is 204, \<open>False\<close> for every other status.
\<close>

theorem update_opa_data_true_iff_204:
  assumes "service w log (update_data_request w c new_data endpoint) = Inr resp"
  shows "fst (update_opa_data w c new_data endpoint log) = Inr (status resp = 204)"
  using assms by (simp add: update_opa_data_def send_def and_then_def)

theorem update_opa_data_true_iff_204_witness:
  "fst (update_opa_data (demo_io 204 []) (demo_client False) (JNum 1) ''d'' []) = Inr True
   \<and> fst (update_opa_data (demo_io 200 ''<empty object>'') (demo_client True) (JNum 1) ''d'' []) = Inr False
   \<and> fst (update_opa_data (demo_io 400 ''<error>'') (demo_client False) (JNum 1) ''d'' []) = Inr False
   \<and> fst (update_opa_data (demo_io 500 ''<error>'') (demo_client True) (JNum 1) ''d'' []) = Inr False"
  using update_opa_data_true_iff_204 [of "demo_io 204 []" "[]" "demo_client False" "JNum 1" "''d''" "\<lparr>status = 204, data = []\<rparr>"]
    update_opa_data_true_iff_204 [of "demo_io 200 ''<empty object>''" "[]" "demo_client True" "JNum 1" "''d''" "\<lparr>status = 200, data = ''<empty object>''\<rparr>"]
    update_opa_data_true_iff_204 [of "demo_io 400 ''<error>''" "[]" "demo_client False" "JNum 1" "''d''" "\<lparr>status = 400, data = ''<error>''\<rparr>"]
    update_opa_data_true_iff_204 [of "demo_io 500 ''<error>''" "[]" "demo_client True" "JNum 1" "''d''" "\<lparr>status = 500, data = ''<error>''\<rparr>"]
  by (simp add: demo_io_def)

subsection \<open>Falsy policy text and file path\<close>

text \<open>
  C10. With a falsy policy text (\<^verbatim>\<open>None\<close> or the empty string)
  \<^verbatim>\<open>update_opa_policy_fromstring\<close> returns \<open>False\<close> and leaves the log as it was: no
  request is sent. With a falsy file path \<^verbatim>\<open>update_opa_policy_fromfile\<close> returns
  \<^verbatim>\<open>None\<close> and leaves the log as it was: no file is opened and no request is sent.
\<close>

theorem falsy_policy_or_path_does_nothing:
  "(\<not> truthy_str new_policy \<longrightarrow>
      update_opa_policy_fromstring w c new_policy endpoint log = (Inr False, log))
   \<and> (\<not> truthy_str filepath \<longrightarrow>
      update_opa_policy_fromfile w c filepath endpoint log = (Inr None, log))"
  by (simp add: update_opa_policy_fromstring_def update_opa_policy_fromfile_def)

theorem falsy_policy_or_path_does_nothing_witness:
  "update_opa_policy_fromstring (demo_io 200 []) (demo_client False) (Some []) ''play'' [] = (Inr False, [])
   \<and> update_opa_policy_fromfile (demo_io 200 []) (demo_client True) None ''play'' [] = (Inr None, [])"
  using falsy_policy_or_path_does_nothing [of "Some []" "demo_io 200 []" "demo_client False" "''play''" "[]" None]
    falsy_policy_or_path_does_nothing [of None "demo_io 200 []" "demo_client True" "''play''" "[]" None]
  by simp

subsection \<open>Raising with the service's code and message\<close>

lemma raise_from_object:
  "raise_from exn (JObj kvs) = Inl (exn (dict_get kvs ''code'') (dict_get kvs ''message''))"
  by (simp add: raise_from_def and_then_def)

lemma raise_from_raises: "\<exists>e. raise_from exn body = Inl e"
  by (cases body) (simp_all add: raise_from_def and_then_def)

lemma decode_raise_raises: "\<exists>e. and_then (decode w resp) (raise_from exn) = Inl e"
  using raise_from_raises by (cases "decode w resp") (simp_all add: and_then_def)

lemma decode_object: "loads w (data resp) = Some j \<Longrightarrow> decode w resp = Inr j"
  by (simp add: decode_def)

subsection \<open>Policy update\<close>

text \<open>
  C5. For a non-empty policy text and any endpoint, once the service answers the PUT,
  \<^verbatim>\<open>update_opa_policy_fromstring\<close> returns \<open>True\<close> exactly when the status is 200; for
  every other status it raises, and when the body of the response is a JSON object the
  exception is the rego parse error built from the body's \<^verbatim>\<open>code\<close> and
  \<^verbatim>\<open>message\<close> fields (\<^verbatim>\<open>None\<close> for a field the body lacks).
\<close>

theorem update_policy_200_or_parse_error:
  assumes "truthy_str new_policy"
    and "service w log (update_policy_request c (the new_policy) endpoint) = Inr resp"
  shows "(fst (update_opa_policy_fromstring w c new_policy endpoint log) = Inr True
            \<longleftrightarrow> status resp = 200)
       \<and> (status resp \<noteq> 200 \<longrightarrow>
            (\<exists>e. fst (update_opa_policy_fromstring w c new_policy endpoint log) = Inl e))
       \<and> (status resp \<noteq> 200 \<longrightarrow> loads w (data resp) = Some (JObj kvs) \<longrightarrow>
            fst (update_opa_policy_fromstring w c new_policy endpoint log)
              = Inl (RegoParseError (dict_get kvs ''code'') (dict_get kvs ''message'')))"
proof -
  have run: "fst (update_opa_policy_fromstring w c new_policy endpoint log) =
      (if status resp = 200 then Inr True
       else and_then (decode w resp) (raise_from RegoParseError))"
    using assms by (simp add: update_opa_policy_fromstring_def send_def and_then_def)
  have raised: "\<exists>e. and_then (decode w resp) (raise_from RegoParseError) = (Inl e :: error + bool)"
    by (rule decode_raise_raises)
  show ?thesis
    using raised by (auto simp: run decode_object raise_from_object and_then_def)
qed


theorem update_policy_200_or_parse_error_witness:
  "fst (update_opa_policy_fromstring (demo_io 200 ''<empty object>'') (demo_client False)
          (Some ''package play'') ''play'' []) = Inr True
   \<and> fst (update_opa_policy_fromstring (demo_io 400 ''<error>'') (demo_client True)
          (Some ''package'') ''play'' [])
       = Inl (RegoParseError (JStr ''resource_not_found'') (JStr ''gone''))"
  using update_policy_200_or_parse_error [of "Some ''package play''" "demo_io 200 ''<empty object>''"
      "[]" "demo_client False" "''play''" "\<lparr>status = 200, data = ''<empty object>''\<rparr>" "[]"]
    update_policy_200_or_parse_error [of "Some ''package''" "demo_io 400 ''<error>''"
      "[]" "demo_client True" "''play''" "\<lparr>status = 400, data = ''<error>''\<rparr>"
      "[(''code'', JStr ''resource_not_found''), (''message'', JStr ''gone'')]"]
  by (simp add: demo_io_def demo_loads_def dict_get_def)

subsection \<open>Raw data\<close>

text \<open>
  C6, as the code has it. In secure mode, once the service answers the GET with a body
  that decodes, \<^verbatim>\<open>get_opa_raw_data\<close> returns the decoded document when the status is
  200, and for every other status it returns the pair of the status and the text
  \<^verbatim>\<open>not found\<close>: nothing is raised and the body's code and message are dropped.
\<close>

theorem raw_data_secure_document_or_pair:
  assumes "secure c"
    and "service w log (raw_data_request c data_name) = Inr resp"
    and "loads w (data resp) = Some body"
  shows "fst (get_opa_raw_data w c data_name log) =
           Inr (if status resp = 200 then Document body
                else Status_Pair (status resp) ''not found'')"
  using assms by (simp add: get_opa_raw_data_def send_def and_then_def decode_def)

theorem raw_data_secure_document_or_pair_witness:
  "fst (get_opa_raw_data (demo_io 200 ''<true>'') (demo_client True) ''users'' [])
     = Inr (Document (JObj [(''result'', JBool True)]))"
  using raw_data_secure_document_or_pair [of "demo_client True" "demo_io 200 ''<true>''" "[]"
      "''users''" "\<lparr>status = 200, data = ''<true>''\<rparr>" "JObj [(''result'', JBool True)]"]
  by (simp add: demo_io_def demo_loads_def demo_client_def)

text \<open>In plain mode the function reads the body through \<^verbatim>\<open>response.jsons()\<close>, so
  every answered call ends in an attribute error, whatever the status.\<close>

lemma raw_data_plain_attribute_error:
  assumes "\<not> secure c"
    and "service w log (raw_data_request c data_name) = Inr resp"
  shows "fst (get_opa_raw_data w c data_name log) = Inl AttributeError"
  using assms by (simp add: get_opa_raw_data_def send_def and_then_def)

text \<open>C6 as stated fails: a 404 in secure mode comes back as a pair, not as an
  exception.\<close>

theorem raw_data_not_found_counterexample:
  "fst (get_opa_raw_data (demo_io 404 ''<error>'') (demo_client True) ''users'' [])
     = Inr (Status_Pair 404 ''not found'')"
  by (simp add: get_opa_raw_data_def send_def and_then_def decode_def demo_io_def
      demo_client_def demo_loads_def raw_data_request_def)

subsection \<open>Deleting a policy and deleting data\<close>

text \<open>
  What the two operations do when the service keeps to its contract. Once the DELETE is
  answered: \<^verbatim>\<open>delete_opa_policy\<close> returns \<open>True\<close> at status 200 provided that, in
  secure mode, the body decodes, and raises for every other status, the policy-not-found
  error with the body's code and message when the body is a JSON object;
  \<^verbatim>\<open>delete_opa_data\<close> returns \<open>True\<close> at status 204 provided that, in secure mode,
  a non-empty body decodes, and raises for every other status, the data-delete error
  with the body's code and message when the body is a non-empty JSON object.
\<close>

lemma delete_under_contract:
  assumes "service w log (delete_policy_request c policy_name) = Inr resp"
    and "service w log' (delete_data_request c data_name) = Inr resp'"
  shows "(status resp = 200 \<longrightarrow> (secure c \<longrightarrow> loads w (data resp) \<noteq> None) \<longrightarrow>
            fst (delete_opa_policy w c policy_name log) = Inr True)
       \<and> (status resp \<noteq> 200 \<longrightarrow>
            (\<exists>e. fst (delete_opa_policy w c policy_name log) = Inl e))
       \<and> (status resp \<noteq> 200 \<longrightarrow> loads w (data resp) = Some (JObj kvs) \<longrightarrow>
            fst (delete_opa_policy w c policy_name log)
              = Inl (PolicyNotFoundError (dict_get kvs ''code'') (dict_get kvs ''message'')))
       \<and> (status resp' = 204 \<longrightarrow>
            (secure c \<longrightarrow> data resp' \<noteq> [] \<longrightarrow> loads w (data resp') \<noteq> None) \<longrightarrow>
            fst (delete_opa_data w c data_name log') = Inr True)
       \<and> (status resp' \<noteq> 204 \<longrightarrow>
            (\<exists>e. fst (delete_opa_data w c data_name log') = Inl e))
       \<and> (status resp' \<noteq> 204 \<longrightarrow> data resp' \<noteq> [] \<longrightarrow>
            loads w (data resp') = Some (JObj kvs') \<longrightarrow>
            fst (delete_opa_data w c data_name log')
              = Inl (DeleteDataError (dict_get kvs' ''code'') (dict_get kvs' ''message'')))"
proof -
  have pol: "fst (delete_opa_policy w c policy_name log) =
      (if \<not> secure c then
         (if status resp = 200 then Inr True
          else and_then (decode w resp) (raise_from PolicyNotFoundError))
       else and_then (decode w resp) (\<lambda>body.
         if status resp = 200 then Inr True else raise_from PolicyNotFoundError body))"
    using assms(1) by (simp add: delete_opa_policy_def send_def and_then_def)
  have dat: "fst (delete_opa_data w c data_name log') =
      (if \<not> secure c then
         (if status resp' = 204 then Inr True
          else and_then (decode w resp') (raise_from DeleteDataError))
       else if data resp' \<noteq> [] then
         and_then (decode w resp') (\<lambda>body.
           if status resp' = 204 then Inr True else raise_from DeleteDataError body)
       else if status resp' = 204 then Inr True
       else Inl UnboundLocalError)"
    using assms(2) by (simp add: delete_opa_data_def send_def and_then_def)
  have p1: "status resp = 200 \<longrightarrow> (secure c \<longrightarrow> loads w (data resp) \<noteq> None) \<longrightarrow>
            fst (delete_opa_policy w c policy_name log) = Inr True"
    by (auto simp: pol decode_def and_then_def)
  have p2: "status resp \<noteq> 200 \<longrightarrow>
            (\<exists>e. fst (delete_opa_policy w c policy_name log) = Inl e)"
  proof -
    have "\<exists>e. and_then (decode w resp) (raise_from PolicyNotFoundError) = (Inl e :: error + bool)"
      by (rule decode_raise_raises)
    then show ?thesis by (simp add: pol and_then_def)
  qed
  have p3: "status resp \<noteq> 200 \<longrightarrow> loads w (data resp) = Some (JObj kvs) \<longrightarrow>
            fst (delete_opa_policy w c policy_name log)
              = Inl (PolicyNotFoundError (dict_get kvs ''code'') (dict_get kvs ''message''))"
    by (simp add: pol decode_def and_then_def raise_from_object)
  have d1: "status resp' = 204 \<longrightarrow>
            (secure c \<longrightarrow> data resp' \<noteq> [] \<longrightarrow> loads w (data resp') \<noteq> None) \<longrightarrow>
            fst (delete_opa_data w c data_name log') = Inr True"
    by (auto simp: dat decode_def and_then_def)
  have d2: "status resp' \<noteq> 204 \<longrightarrow>
            (\<exists>e. fst (delete_opa_data w c data_name log') = Inl e)"
  proof -
    have "\<exists>e. and_then (decode w resp') (raise_from DeleteDataError) = (Inl e :: error + bool)"
      by (rule decode_raise_raises)
    then show ?thesis by (simp add: dat and_then_def)
  qed
  have d3: "status resp' \<noteq> 204 \<longrightarrow> data resp' \<noteq> [] \<longrightarrow>
            loads w (data resp') = Some (JObj kvs') \<longrightarrow>
            fst (delete_opa_data w c data_name log')
              = Inl (DeleteDataError (dict_get kvs' ''code'') (dict_get kvs' ''message''))"
    by (simp add: dat decode_def and_then_def raise_from_object)
  from p1 p2 p3 d1 d2 d3 show ?thesis by blast
qed

lemma delete_under_contract_instances:
  "fst (delete_opa_policy (demo_io 200 ''<empty object>'') (demo_client True) ''play'' []) = Inr True
   \<and> fst (delete_opa_data (demo_io 204 []) (demo_client True) ''users'' []) = Inr True
   \<and> fst (delete_opa_policy (demo_io 404 ''<error>'') (demo_client False) ''play'' [])
       = Inl (PolicyNotFoundError (JStr ''resource_not_found'') (JStr ''gone''))
   \<and> fst (delete_opa_data (demo_io 404 ''<error>'') (demo_client True) ''users'' [])
       = Inl (DeleteDataError (JStr ''resource_not_found'') (JStr ''gone''))"
  using delete_under_contract [where w = "demo_io 200 ''<empty object>''"
      and c = "demo_client True" and log = "[]" and log' = "[]" and policy_name = "''play''"
      and data_name = "''users''" and resp = "\<lparr>status = 200, data = ''<empty object>''\<rparr>"
      and resp' = "\<lparr>status = 200, data = ''<empty object>''\<rparr>" and kvs = "[]" and kvs' = "[]"]
    delete_under_contract [where w = "demo_io 204 []"
      and c = "demo_client True" and log = "[]" and log' = "[]" and policy_name = "''play''"
      and data_name = "''users''" and resp = "\<lparr>status = 204, data = []\<rparr>"
      and resp' = "\<lparr>status = 204, data = []\<rparr>" and kvs = "[]" and kvs' = "[]"]
    delete_under_contract [where w = "demo_io 404 ''<error>''"
      and c = "demo_client False" and log = "[]" and log' = "[]" and policy_name = "''play''"
      and data_name = "''users''" and resp = "\<lparr>status = 404, data = ''<error>''\<rparr>"
      and resp' = "\<lparr>status = 404, data = ''<error>''\<rparr>"
      and kvs = "[(''code'', JStr ''resource_not_found''), (''message'', JStr ''gone'')]"
      and kvs' = "[(''code'', JStr ''resource_not_found''), (''message'', JStr ''gone'')]"]
    delete_under_contract [where w = "demo_io 404 ''<error>''"
      and c = "demo_client True" and log = "[]" and log' = "[]" and policy_name = "''play''"
      and data_name = "''users''" and resp = "\<lparr>status = 404, data = ''<error>''\<rparr>"
      and resp' = "\<lparr>status = 404, data = ''<error>''\<rparr>"
      and kvs = "[(''code'', JStr ''resource_not_found''), (''message'', JStr ''gone'')]"
      and kvs' = "[(''code'', JStr ''resource_not_found''), (''message'', JStr ''gone'')]"]
  by (simp add: demo_io_def demo_loads_def demo_client_def dict_get_def)

text \<open>Outside that contract the two modes part. Secure mode decodes the body of a
  policy deletion before it tests the status, and its data deletion raises with a
  variable that an empty body never bound.\<close>

lemma delete_policy_secure_undecodable:
  assumes "secure c"
    and "service w log (delete_policy_request c policy_name) = Inr resp"
    and "loads w (data resp) = None"
  shows "fst (delete_opa_policy w c policy_name log) = Inl ValueError"
  using assms by (simp add: delete_opa_policy_def send_def and_then_def decode_def)

lemma delete_policy_plain_200:
  assumes "\<not> secure c"
    and "service w log (delete_policy_request c policy_name) = Inr resp"
    and "status resp = 200"
  shows "fst (delete_opa_policy w c policy_name log) = Inr True"
  using assms by (simp add: delete_opa_policy_def send_def and_then_def)

lemma delete_data_secure_empty_body:
  assumes "secure c"
    and "service w log (delete_data_request c data_name) = Inr resp"
    and "data resp = []"
    and "status resp \<noteq> 204"
  shows "fst (delete_opa_data w c data_name log) = Inl UnboundLocalError"
  using assms by (simp add: delete_opa_data_def send_def and_then_def)

text \<open>
  C9. The claim is that \<^verbatim>\<open>delete_opa_policy\<close> returns \<open>True\<close> exactly when the status
  is 200 and otherwise raises the policy-not-found error, and that
  \<^verbatim>\<open>delete_opa_data\<close> returns \<open>True\<close> exactly when the status is 204 and otherwise
  raises the data-delete error. The code breaks it in secure mode: a data deletion
  answered with 404 and an empty body raises an unbound-variable error instead of the
  data-delete error, and a policy deletion answered with 200 and an empty body raises a
  decoding error where the plain branch returns \<open>True\<close>.
\<close>

theorem delete_empty_body_failing_input:
  "fst (delete_opa_data (demo_io 404 []) (demo_client True) ''users'' [])
     = Inl UnboundLocalError
   \<and> fst (delete_opa_policy (demo_io 200 []) (demo_client True) ''play'' [])
     = Inl ValueError
   \<and> fst (delete_opa_policy (demo_io 200 []) (demo_client False) ''play'' [])
     = Inr True"
  by (simp add: delete_opa_data_def delete_opa_policy_def send_def and_then_def decode_def
      demo_io_def demo_loads_def demo_client_def)

subsection \<open>Construction\<close>

lemma http_is_not_https: "startswith h ''http://'' \<Longrightarrow> \<not> startswith h ''https://''"
  by (auto simp: startswith_def prefix_def)

lemma lstrip_leading_space: "\<forall>ch\<in>set ws. isspace ch \<Longrightarrow> lstrip (ws @ h) = lstrip h"
  by (simp add: lstrip_def dropWhile_append)

text \<open>
  C7, as the code has it. For every configuration: \<^verbatim>\<open>ssl=True\<close> with an absent or empty
  certificate path raises the SSL error; \<^verbatim>\<open>ssl=True\<close> with a host that starts with
  \<^verbatim>\<open>http://\<close> raises the SSL error (about the certificate when that is missing,
  about the scheme otherwise); and a host that starts with
  \<^verbatim>\<open>https://\<close> with \<^verbatim>\<open>ssl=False\<close> is accepted: the client is built in plain mode
  with the host used as it is.
\<close>

theorem init_ssl_checks:
  "(ssl \<and> \<not> truthy_str cert0 \<longrightarrow>
      init host0 port0 version0 ssl cert0 hdrs
        = Inl (SSLError ''ssl=True'' ''Make sure you  provide cert file''))
   \<and> (ssl \<and> startswith (lstrip host0) ''http://'' \<longrightarrow>
      init host0 port0 version0 ssl cert0 hdrs
        = Inl (SSLError ''ssl=True''
            (if truthy_str cert0
             then ''With ssl enabled not possible to have connection with http''
             else ''Make sure you  provide cert file'')))
   \<and> (\<not> ssl \<and> startswith (lstrip host0) ''https://'' \<longrightarrow>
      init host0 port0 version0 ssl cert0 hdrs
        = Inr \<lparr>host = lstrip host0, port = port0, version = version0, secure = False,
               schema = ''http://'', cert = None,
               root_url = lstrip host0 @ '':'' @ format_port port0 @ ''/'' @ version0,
               headers = hdrs\<rparr>)"
  by (auto simp: init_def Let_def dest: http_is_not_https)

theorem init_ssl_checks_witness:
  "init ''localhost'' (Port_Int 8181) ''v1'' True None []
     = Inl (SSLError ''ssl=True'' ''Make sure you  provide cert file'')
   \<and> init ''http://h'' (Port_Int 8181) ''v1'' True (Some ''ca.pem'') []
     = Inl (SSLError ''ssl=True''
         ''With ssl enabled not possible to have connection with http'')
   \<and> root_url (projr (init ''https://h'' (Port_Int 8181) ''v1'' False None [])) = ''https://h:8181/v1''"
  using init_ssl_checks [of True None "''localhost''" "Port_Int 8181" "''v1''" "[]"]
    init_ssl_checks [of True "Some ''ca.pem''" "''http://h''" "Port_Int 8181" "''v1''" "[]"]
    init_ssl_checks [of False None "''https://h''" "Port_Int 8181" "''v1''" "[]"]
  by (simp add: lstrip_def isspace_def startswith_def str_of_int_def digit_def)

text \<open>C7 as stated fails: \<^verbatim>\<open>OpaClient(host="https://h", ssl=False)\<close> raises
  nothing.\<close>

theorem https_host_without_ssl_counterexample:
  "init ''https://h'' (Port_Int 8181) ''v1'' False None []
     = Inr \<lparr>host = ''https://h'', port = Port_Int 8181, version = ''v1'', secure = False,
            schema = ''http://'', cert = None, root_url = ''https://h:8181/v1'',
            headers = []\<rparr>"
  by (simp add: init_def Let_def lstrip_def isspace_def startswith_def str_of_int_def
      digit_def)

text \<open>
  C8. When secure mode comes with a certificate: a host that, once its leading
  whitespace is dropped, starts with neither \<^verbatim>\<open>http://\<close> nor \<^verbatim>\<open>https://\<close> gives the
  root URL scheme, host, colon, port, slash, version, the scheme being \<^verbatim>\<open>https://\<close>
  in secure mode and \<^verbatim>\<open>http://\<close> otherwise; a host that carries a scheme (and does
  not contradict the secure flag) is used as it is in place of scheme and host; leading
  whitespace does not change the outcome; and the root URL is a function of host, port,
  version, secure flag and certificate alone, computed without any request (the
  constructor takes no world and no log).
\<close>

theorem root_url_resolution:
  assumes "ssl \<longrightarrow> truthy_str cert0"
  shows "(\<not> startswith (lstrip host0) ''http://'' \<and> \<not> startswith (lstrip host0) ''https://'' \<longrightarrow>
          (\<exists>c. init host0 port0 version0 ssl cert0 hdrs = Inr c \<and> secure c = ssl
             \<and> root_url c = (if ssl then ''https://'' else ''http://'') @ lstrip host0
                  @ '':'' @ format_port port0 @ ''/'' @ version0))
       \<and> (startswith (lstrip host0) ''https://''
            \<or> startswith (lstrip host0) ''http://'' \<and> \<not> ssl \<longrightarrow>
          (\<exists>c. init host0 port0 version0 ssl cert0 hdrs = Inr c \<and> secure c = ssl
             \<and> root_url c = lstrip host0 @ '':'' @ format_port port0 @ ''/'' @ version0))
       \<and> ((\<forall>ch\<in>set ws. isspace ch) \<longrightarrow>
            init (ws @ host0) port0 version0 ssl cert0 hdrs
              = init host0 port0 version0 ssl cert0 hdrs)
       \<and> map_sum id root_url (init host0 port0 version0 ssl cert0 hdrs)
            = map_sum id root_url (init host0 port0 version0 ssl cert0 hdrs')"
proof -
  have a: "\<not> startswith (lstrip host0) ''http://'' \<and> \<not> startswith (lstrip host0) ''https://'' \<longrightarrow>
          (\<exists>c. init host0 port0 version0 ssl cert0 hdrs = Inr c \<and> secure c = ssl
             \<and> root_url c = (if ssl then ''https://'' else ''http://'') @ lstrip host0
                  @ '':'' @ format_port port0 @ ''/'' @ version0)"
    using assms by (simp add: init_def Let_def)
  have b: "startswith (lstrip host0) ''https://''
            \<or> startswith (lstrip host0) ''http://'' \<and> \<not> ssl \<longrightarrow>
          (\<exists>c. init host0 port0 version0 ssl cert0 hdrs = Inr c \<and> secure c = ssl
             \<and> root_url c = lstrip host0 @ '':'' @ format_port port0 @ ''/'' @ version0)"
    using assms by (auto simp: init_def Let_def)
  have c: "(\<forall>ch\<in>set ws. isspace ch) \<longrightarrow>
            init (ws @ host0) port0 version0 ssl cert0 hdrs
              = init host0 port0 version0 ssl cert0 hdrs"
    by (simp add: init_def lstrip_leading_space)
  have d: "map_sum id root_url (init host0 port0 version0 ssl cert0 hdrs)
            = map_sum id root_url (init host0 port0 version0 ssl cert0 hdrs')"
    by (simp add: init_def Let_def)
  from a b c d show ?thesis by blast
qed

theorem root_url_resolution_witness:
  "(\<exists>c. init ''h'' (Port_Int 8181) ''v1'' True (Some ''ca.pem'') [] = Inr c \<and> secure c
        \<and> root_url c = ''https://h:8181/v1'')
   \<and> (\<exists>c. init ''h'' (Port_Str ''8181'') ''v1'' False None [] = Inr c \<and> \<not> secure c
        \<and> root_url c = ''http://h:8181/v1'')
   \<and> (\<exists>c. init ''http://opa.example'' (Port_Int 80) ''v0'' False None [] = Inr c \<and> \<not> secure c
        \<and> root_url c = ''http://opa.example:80/v0'')
   \<and> init ''  h'' (Port_Int 8181) ''v1'' False None [] = init ''h'' (Port_Int 8181) ''v1'' False None []"
  using root_url_resolution [of True "Some ''ca.pem''" "''h''" "Port_Int 8181" "''v1''" "[]" "[]" "[]"]
    root_url_resolution [of False None "''h''" "Port_Str ''8181''" "''v1''" "[]" "[]" "[]"]
    root_url_resolution [of False None "''http://opa.example''" "Port_Int 80" "''v0''" "[]" "[]" "[]"]
    root_url_resolution [of False None "''h''" "Port_Int 8181" "''v1''" "[]" "''  ''" "[]"]
  by (simp add: lstrip_def isspace_def startswith_def str_of_int_def digit_def)

subsection \<open>The walk on a well-formed tree\<close>

lemma segment_value_get: "segment_value p = Some v \<Longrightarrow> py_get p ''value'' = Inr (JStr v)"
  by (auto simp: segment_value_def split: sum.splits json.splits)

lemma walk_path_values:
  "map segment_value segs = map Some vs \<Longrightarrow> walk_path u segs = Inr (join_segments u vs)"
proof (induction segs arbitrary: u vs)
  case Nil
  then show ?case by (simp add: join_segments_def)
next
  case (Cons p ps)
  then obtain v ws where vs: "vs = v # ws" and v: "segment_value p = Some v"
    and ws: "map segment_value ps = map Some ws"
    by (cases vs) auto
  from Cons.IH [OF ws] have "walk_path (u @ ''/'' @ v) ps = Inr (join_segments (u @ ''/'' @ v) ws)" .
  with segment_value_get [OF v] show ?case
    by (simp add: vs join_segments_def)
qed

lemma default_marked_get:
  "is_dict rule \<Longrightarrow> \<exists>d. py_get rule ''default'' = Inr d \<and> truthy d = default_marked rule"
  by (cases rule) (simp_all add: default_marked_def)

lemma head_name_get:
  "head_name rule = Some n \<Longrightarrow>
     \<exists>head. py_get rule ''head'' = Inr head \<and> py_get head ''name'' = Inr (JStr n)"
  by (auto simp: head_name_def split: sum.splits json.splits)


lemma match_rules_ok:
  "\<forall>rule\<in>set rs. rule_ok rule \<Longrightarrow>
     match_rules name rs (u, f) =
       Inr (u @ concat (map (\<lambda>rule. ''/'' @ name) (default_rules_named name rs)),
            f \<or> default_rules_named name rs \<noteq> [])"
proof (induction rs arbitrary: u f)
  case Nil
  then show ?case by (simp add: default_rules_named_def)
next
  case (Cons rule rs)
  then have ok: "rule_ok rule" and rest: "\<forall>r\<in>set rs. rule_ok r" by simp_all
  from ok obtain d where d: "py_get rule ''default'' = Inr d" "truthy d = default_marked rule"
    using default_marked_get by (auto simp: rule_ok_def)
  show ?case
  proof (cases "default_marked rule")
    case False
    with d Cons.IH [OF rest] show ?thesis by (simp add: default_rules_named_def)
  next
    case True
    with ok obtain n where n: "head_name rule = Some n" by (auto simp: rule_ok_def)
    from head_name_get [OF n] obtain head where
      h: "py_get rule ''head'' = Inr head" "py_get head ''name'' = Inr (JStr n)" by blast
    from True d h n Cons.IH [OF rest] show ?thesis
      by (simp add: default_rules_named_def)
  qed
qed

lemma match_rules_extends:
  "match_rules name rs (u, f) = Inr (u', f') \<Longrightarrow>
     prefix u u' \<and> (f \<longrightarrow> f') \<and> (\<not> f' \<longrightarrow> u' = u)"
proof (induction rs arbitrary: u f)
  case Nil
  then show ?case by simp
next
  case (Cons rule rs)
  from Cons.prems consider
      (skip) "match_rules name rs (u, f) = Inr (u', f')"
    | (hit) "match_rules name rs (u @ ''/'' @ name, True) = Inr (u', f')"
    by (auto split: sum.splits if_splits)
  then show ?case
  proof cases
    case skip
    then show ?thesis by (rule Cons.IH)
  next
    case hit
    from Cons.IH [OF hit] have "prefix (u @ ''/'' @ name) u'" and "f'" by simp_all
    then show ?thesis by (auto dest: append_prefixD)
  qed
qed

lemma package_path_steps:
  "py_get x ''ast'' = Inr ast \<Longrightarrow> py_get ast ''package'' = Inr package \<Longrightarrow>
   py_get package ''path'' = Inr pth \<Longrightarrow> package_path x = py_iter pth"
  by (simp add: package_path_def and_then_def)

lemma policy_entry_path:
  "namespace_url root x = Inr ns \<Longrightarrow> policy_entry root x = Inr (key, info) \<Longrightarrow>
     path info = [ns]"
  by (auto simp: policy_entry_def and_then_def split: sum.splits if_splits)

lemma resolve_rule_extends:
  assumes "namespace_url root x = Inr ns" and "truthy x"
    and "resolve_rule root x name = Inr (u, f)"
  shows "prefix ns u \<and> (\<not> f \<longrightarrow> u = ns)"
proof -
  from assms obtain rs where "match_rules name rs (ns, False) = Inr (u, f)"
    by (auto simp: resolve_rule_def and_then_def split: sum.splits)
  from match_rules_extends [OF this] show ?thesis by simp
qed

lemma resolve_rule_ok:
  assumes "namespace_url root x = Inr ns" and "ast_rules x = Inr rs"
    and "\<forall>rule\<in>set rs. rule_ok rule" and "truthy x"
  shows "resolve_rule root x name =
           Inr (ns @ concat (map (\<lambda>rule. ''/'' @ name) (default_rules_named name rs)),
                default_rules_named name rs \<noteq> [])"
  using assms match_rules_ok [of rs name ns False]
  by (simp add: resolve_rule_def and_then_def)

lemma check_after_resolve:
  assumes "service w log (check_get_request c policy_name) = Inr resp"
    and "loads w (data resp) = Some policy"
    and "py_get policy ''result'' = Inr result"
    and "resolve_rule (root_url c) result rule_name = Inr (endpoint, found)"
  shows "check w c input_data policy_name rule_name log =
           (if found then
              (and_then
                 (service w (log @ [Sent (check_get_request c policy_name)])
                    (check_post_request w c endpoint input_data))
                 (\<lambda>response.
                    if \<not> secure c then decode w response
                    else if data response \<noteq> [] then decode w response
                    else Inl (rule_not_found rule_name)),
               log @ [Sent (check_get_request c policy_name),
                      Sent (check_post_request w c endpoint input_data)])
            else (Inl (rule_not_found rule_name),
                  log @ [Sent (check_get_request c policy_name)]))"
  using assms by (simp add: check_def send_def decode_def and_then_def)

lemma dict_set_bool_is_int:
  "dict_set (JNum 1) b (dict_set (JBool True) a []) = [(JBool True, b)]
   \<and> dict_set (JStr ''q'') b (dict_set (JStr ''p'') a []) = [(JStr ''p'', a), (JStr ''q'', b)]"
  by simp

lemma policies_loop_entries:
  "map (policy_entry root) ps = map Inr es \<Longrightarrow>
     policies_loop root ps acc = Inr (fold (\<lambda>e. dict_set (fst e) (snd e)) es acc)"
proof (induction ps arbitrary: es acc)
  case Nil
  then show ?case by simp
next
  case (Cons p ps)
  then obtain e es' where es: "es = e # es'" and e: "policy_entry root p = Inr e"
    and rest: "map (policy_entry root) ps = map Inr es'"
    by (cases es) auto
  from Cons.IH [OF rest] e show ?case
    by (cases e) (simp add: es)
qed


lemmas demo_json = demo_policy_def demo_ast_def demo_package_def demo_segments_def
  demo_rules_def pathless_policy_def dict_get_def

lemmas walk_defs = namespace_url_def package_path_def ast_rules_def policy_entry_def
  resolve_rule_def and_then_def

subsection \<open>The namespace URL\<close>

text \<open>
  C1, as the code has it. For a policy whose \<^verbatim>\<open>ast.package.path\<close> is a list of
  segments with the string values \<open>vs\<close>, and every root URL, the walk gives the root
  followed by a slash and each value in order; the entry that
  \<^verbatim>\<open>__get_policies_info\<close> stores has exactly this URL as its path, and the URL that
  \<^verbatim>\<open>__check\<close> resolves starts with it (and is it when no rule is found). With an
  empty path the result is the root. With an absent path (\<^verbatim>\<open>None\<close>) the loop raises
  a type error, in both callers.
\<close>

theorem namespace_url_joins_segments:
  assumes "py_get x ''ast'' = Inr ast"
    and "py_get ast ''package'' = Inr package"
    and "py_get package ''path'' = Inr pth"
  shows "(pth = JArr segs \<and> map segment_value segs = map Some vs \<longrightarrow>
            namespace_url root x = Inr (root @ concat (map (\<lambda>v. ''/'' @ v) vs))
          \<and> (\<forall>key info. policy_entry root x = Inr (key, info) \<longrightarrow>
                path info = [root @ concat (map (\<lambda>v. ''/'' @ v) vs)])
          \<and> (\<forall>name u f. truthy x \<longrightarrow> resolve_rule root x name = Inr (u, f) \<longrightarrow>
                prefix (root @ concat (map (\<lambda>v. ''/'' @ v) vs)) u
                \<and> (\<not> f \<longrightarrow> u = root @ concat (map (\<lambda>v. ''/'' @ v) vs))))
       \<and> (pth = JArr [] \<longrightarrow> namespace_url root x = Inr root)
       \<and> (pth = JNull \<longrightarrow>
            namespace_url root x = Inl TypeError
          \<and> policy_entry root x = Inl TypeError
          \<and> (truthy x \<longrightarrow> resolve_rule root x name = Inl TypeError))"
proof -
  note pp = package_path_steps [OF assms]
  have present: "namespace_url root x = Inr (root @ concat (map (\<lambda>v. ''/'' @ v) vs))"
    if "pth = JArr segs" and "map segment_value segs = map Some vs"
    using that pp walk_path_values [of segs vs root]
    by (simp add: namespace_url_def and_then_def join_segments_def)
  have empty: "namespace_url root x = Inr root" if "pth = JArr []"
    using that pp by (simp add: namespace_url_def and_then_def)
  have absent: "namespace_url root x = Inl TypeError" if "pth = JNull"
    using that pp by (simp add: namespace_url_def and_then_def)
  have absent_entry: "policy_entry root x = Inl TypeError" if "pth = JNull"
    using absent [OF that] by (simp add: policy_entry_def and_then_def)
  have absent_rule: "resolve_rule root x name = Inl TypeError" if "pth = JNull" and "truthy x"
    using absent [OF that(1)] that(2) by (simp add: resolve_rule_def and_then_def)
  from present empty absent absent_entry absent_rule show ?thesis
    using policy_entry_path resolve_rule_extends by blast
qed

theorem namespace_url_joins_segments_witness:
  "namespace_url ''http://h:8181/v1'' demo_policy = Inr ''http://h:8181/v1/data/play''
   \<and> namespace_url ''http://h:8181/v1'' empty_path_policy = Inr ''http://h:8181/v1''
   \<and> policy_entry ''http://h:8181/v1'' pathless_policy = Inl TypeError"
  using namespace_url_joins_segments [where x = demo_policy and ast = demo_ast
      and package = demo_package and pth = "JArr demo_segments" and segs = demo_segments
      and vs = "[''data'', ''play'']" and root = "''http://h:8181/v1''"]
    namespace_url_joins_segments [where x = empty_path_policy
      and ast = "JObj [(''package'', JObj [(''path'', JArr [])]), (''rules'', JArr [])]"
      and package = "JObj [(''path'', JArr [])]" and pth = "JArr []" and segs = "[]"
      and vs = "[]" and root = "''http://h:8181/v1''"]
    namespace_url_joins_segments [where x = pathless_policy
      and ast = "JObj [(''package'', JObj []), (''rules'', JArr [])]"
      and package = "JObj []" and pth = JNull and root = "''http://h:8181/v1''"]
  by (simp add: demo_json empty_path_policy_def segment_value_def)

text \<open>C1 as stated fails where the package has no path: nothing is returned.\<close>

theorem absent_path_counterexample:
  "namespace_url ''http://h:8181/v1'' pathless_policy = Inl TypeError
   \<and> fst (get_policies_info (opa_io ''<pathless policies>'' []) (demo_client False) [])
       = Inl TypeError
   \<and> fst (check (opa_io ''<pathless policy>'' ''<true>'') (demo_client False) JNull
            ''play'' ''hello'' []) = Inl TypeError"
  by (simp add: demo_json walk_defs get_policies_info_def check_def send_def decode_def
      opa_io_def opa_loads_def demo_client_def policies_info_request_def
      check_get_request_def policy_root_def)

subsection \<open>Only default rules are visible\<close>



subsection \<open>Permission check\<close>

text \<open>
  C3, as the code has it. Once the service answers the GET of the named policy with a
  decodable body whose result, when truthy, is a well-formed policy: if the result is
  falsy or no default-marked rule has the requested name, \<^verbatim>\<open>check_permission\<close> raises
  the permission-check error built from the rule name alone (the text
  \<^verbatim>\<open><rule> rule not found\<close> and the fixed text \<^verbatim>\<open>policy or rule name not correct\<close>),
  after that one request; if a default-marked rule has the name, it POSTs the input as
  JSON to the resolved endpoint and, when the answer's body decodes (and is not empty in
  secure mode), returns the decoded document.
\<close>

theorem check_permission_outcomes:
  assumes "service w log (check_get_request c policy_name) = Inr resp"
    and "loads w (data resp) = Some policy"
    and "py_get policy ''result'' = Inr result"
    and "truthy result \<longrightarrow>
           namespace_url (root_url c) result = Inr ns \<and> ast_rules result = Inr rs
           \<and> (\<forall>rule\<in>set rs. rule_ok rule)"
    and "endpoint = ns @ concat (map (\<lambda>rule. ''/'' @ rule_name) (default_rules_named rule_name rs))"
  shows "(\<not> truthy result \<or> \<not> (\<exists>rule\<in>set rs. default_marked rule \<and> head_name rule = Some rule_name) \<longrightarrow>
            check w c input_data policy_name rule_name log
              = (Inl (CheckPermissionError (rule_name @ '' rule not found'')
                        ''policy or rule name not correct''),
                 log @ [Sent (check_get_request c policy_name)]))
       \<and> (truthy result \<and> (\<exists>rule\<in>set rs. default_marked rule \<and> head_name rule = Some rule_name) \<longrightarrow>
            service w (log @ [Sent (check_get_request c policy_name)])
              (check_post_request w c endpoint input_data) = Inr answer \<longrightarrow>
            loads w (data answer) = Some decoded \<longrightarrow>
            (secure c \<longrightarrow> data answer \<noteq> []) \<longrightarrow>
            check w c input_data policy_name rule_name log
              = (Inr decoded,
                 log @ [Sent (check_get_request c policy_name),
                        Sent (check_post_request w c endpoint input_data)]))"
proof -
  have found: "(default_rules_named rule_name rs \<noteq> [])
      = (\<exists>rule\<in>set rs. default_marked rule \<and> head_name rule = Some rule_name)"
    by (auto simp: default_rules_named_def filter_empty_conv)
  have gone: "check w c input_data policy_name rule_name log
      = (Inl (rule_not_found rule_name), log @ [Sent (check_get_request c policy_name)])"
    if "\<not> truthy result"
  proof -
    from that have "resolve_rule (root_url c) result rule_name = Inr (root_url c, False)"
      by (simp add: resolve_rule_def)
    from check_after_resolve [OF assms(1-3) this] show ?thesis by simp
  qed
  have res: "resolve_rule (root_url c) result rule_name
      = Inr (endpoint, \<exists>rule\<in>set rs. default_marked rule \<and> head_name rule = Some rule_name)"
    if "truthy result"
    using that assms(4,5) resolve_rule_ok [of "root_url c" result ns rs rule_name]
    by (simp add: found)
  have missing: "check w c input_data policy_name rule_name log
      = (Inl (rule_not_found rule_name), log @ [Sent (check_get_request c policy_name)])"
    if "truthy result"
      and "\<not> (\<exists>rule\<in>set rs. default_marked rule \<and> head_name rule = Some rule_name)"
    using check_after_resolve [OF assms(1-3) res [OF that(1)], of input_data] that(2) by simp
  have posted: "check w c input_data policy_name rule_name log
      = (Inr decoded, log @ [Sent (check_get_request c policy_name),
                             Sent (check_post_request w c endpoint input_data)])"
    if "truthy result"
      and "\<exists>rule\<in>set rs. default_marked rule \<and> head_name rule = Some rule_name"
      and "service w (log @ [Sent (check_get_request c policy_name)])
              (check_post_request w c endpoint input_data) = Inr answer"
      and "loads w (data answer) = Some decoded"
      and "secure c \<longrightarrow> data answer \<noteq> []"
    using check_after_resolve [OF assms(1-3) res [OF that(1)], of input_data] that(2-5)
    by (simp add: and_then_def decode_def)
  from gone missing posted show ?thesis
    unfolding rule_not_found_def by blast
qed

theorem check_permission_outcomes_witness:
  "check (opa_io ''<policy>'' ''<true>'') (demo_client False)
      (JObj [(''input'', JObj [(''message'', JStr ''world'')])]) ''play'' ''hello'' []
     = (Inr (JObj [(''result'', JBool True)]),
        [Sent \<lparr>verb = ''GET'', url = ''http://h:8181/v1/policies/play'',
               payload = No_Payload, sent_headers = None\<rparr>,
         Sent \<lparr>verb = ''POST'', url = ''http://h:8181/v1/data/play/hello'',
               payload = Json_Payload (JObj [(''input'', JObj [(''message'', JStr ''world'')])]),
               sent_headers = None\<rparr>])
   \<and> check (opa_io ''<policy>'' ''<true>'') (demo_client False)
      (JObj [(''input'', JObj [(''message'', JStr ''world'')])]) ''play'' ''secret'' []
     = (Inl (CheckPermissionError ''secret rule not found'' ''policy or rule name not correct''),
        [Sent \<lparr>verb = ''GET'', url = ''http://h:8181/v1/policies/play'',
               payload = No_Payload, sent_headers = None\<rparr>])"
proof -
  define w where "w = opa_io ''<policy>'' ''<true>''"
  define c where "c = demo_client False"
  define inp where "inp = JObj [(''input'', JObj [(''message'', JStr ''world'')])]"
  define get where "get = \<lparr>verb = ''GET'', url = ''http://h:8181/v1/policies/play'',
    payload = No_Payload, sent_headers = None\<rparr>"
  define post where "post = \<lparr>verb = ''POST'', url = ''http://h:8181/v1/data/play/hello'',
    payload = Json_Payload inp, sent_headers = None\<rparr>"
  have get_eq: "check_get_request c ''play'' = get"
    by (simp add: check_get_request_def c_def demo_client_def policy_root_def get_def)
  have a1: "service w [] (check_get_request c ''play'') = Inr \<lparr>status = 200, data = ''<policy>''\<rparr>"
    by (simp add: get_eq) (simp add: w_def opa_io_def get_def)
  have a2: "loads w (data \<lparr>status = 200, data = ''<policy>''\<rparr>) = Some (JObj [(''result'', demo_policy)])"
    by (simp add: w_def opa_io_def opa_loads_def)
  have a3: "py_get (JObj [(''result'', demo_policy)]) ''result'' = Inr demo_policy"
    by (simp add: dict_get_def)
  have ns: "namespace_url (root_url c) demo_policy = Inr ''http://h:8181/v1/data/play''"
    by (simp add: c_def demo_client_def demo_json namespace_url_def package_path_def and_then_def)
  have rs: "ast_rules demo_policy = Inr demo_rules"
    by (simp add: demo_policy_def demo_ast_def dict_get_def ast_rules_def and_then_def)
  have ok: "\<forall>rule\<in>set demo_rules. rule_ok rule"
    by (simp add: demo_rules_def dict_get_def rule_ok_def default_marked_def head_name_def)
  have a4: "truthy demo_policy \<longrightarrow>
      namespace_url (root_url c) demo_policy = Inr ''http://h:8181/v1/data/play''
      \<and> ast_rules demo_policy = Inr demo_rules \<and> (\<forall>rule\<in>set demo_rules. rule_ok rule)"
    using ns rs ok by simp
  have tr: "truthy demo_policy" by (simp add: demo_policy_def)
  have hello: "''http://h:8181/v1/data/play/hello'' = ''http://h:8181/v1/data/play''
      @ concat (map (\<lambda>rule. ''/'' @ ''hello'') (default_rules_named ''hello'' demo_rules))"
    by (simp add: default_rules_named_def demo_rules_def dict_get_def default_marked_def head_name_def)
  have secret: "''http://h:8181/v1/data/play'' = ''http://h:8181/v1/data/play''
      @ concat (map (\<lambda>rule. ''/'' @ ''secret'') (default_rules_named ''secret'' demo_rules))"
    by (simp add: default_rules_named_def demo_rules_def dict_get_def default_marked_def head_name_def)
  have has_hello: "\<exists>rule\<in>set demo_rules. default_marked rule \<and> head_name rule = Some ''hello''"
    by (simp add: demo_rules_def dict_get_def default_marked_def head_name_def)
  have no_secret: "\<not> (\<exists>rule\<in>set demo_rules. default_marked rule \<and> head_name rule = Some ''secret'')"
    by (simp add: demo_rules_def dict_get_def default_marked_def head_name_def)
  have post_eq: "check_post_request w c ''http://h:8181/v1/data/play/hello'' inp = post"
    by (simp add: check_post_request_def c_def demo_client_def post_def)
  have b1: "service w ([] @ [Sent (check_get_request c ''play'')])
      (check_post_request w c ''http://h:8181/v1/data/play/hello'' inp)
      = Inr \<lparr>status = 200, data = ''<true>''\<rparr>"
    by (simp add: post_eq) (simp add: w_def opa_io_def post_def)
  have b2: "loads w (data \<lparr>status = 200, data = ''<true>''\<rparr>) = Some (JObj [(''result'', JBool True)])"
    by (simp add: w_def opa_io_def opa_loads_def)
  have b3: "secure c \<longrightarrow> data \<lparr>status = 200, data = ''<true>''\<rparr> \<noteq> []"
    by simp
  from check_permission_outcomes [OF a1 a2 a3 a4 hello, of inp "\<lparr>status = 200, data = ''<true>''\<rparr>"
      "JObj [(''result'', JBool True)]"] tr has_hello b1 b2 b3
  have first: "check w c inp ''play'' ''hello'' []
      = (Inr (JObj [(''result'', JBool True)]),
         [] @ [Sent (check_get_request c ''play''),
               Sent (check_post_request w c ''http://h:8181/v1/data/play/hello'' inp)])"
    by blast
  from check_permission_outcomes [OF a1 a2 a3 a4 secret, of inp] tr no_secret
  have second: "check w c inp ''play'' ''secret'' []
      = (Inl (CheckPermissionError (''secret'' @ '' rule not found'')
           ''policy or rule name not correct''),
         [] @ [Sent (check_get_request c ''play'')])"
    by blast
  from first second show ?thesis
    unfolding get_eq post_eq unfolding w_def c_def inp_def get_def post_def by simp
qed

text \<open>C3 as stated fails: the error raised for policy \<^verbatim>\<open>play\<close> does not contain
  the policy's name.\<close>

theorem error_names_no_policy_counterexample:
  "fst (check (opa_io ''<policy>'' ''<true>'') (demo_client False)
          (JObj [(''input'', JObj [(''message'', JStr ''world'')])]) ''play'' ''missing'' [])
     = Inl (CheckPermissionError ''missing rule not found'' ''policy or rule name not correct'')
   \<and> \<not> sublist ''play'' ''missing rule not found''
   \<and> \<not> sublist ''play'' ''policy or rule name not correct''"
  by (simp add: demo_json walk_defs check_def send_def decode_def rule_not_found_def
      opa_io_def opa_loads_def demo_client_def check_get_request_def policy_root_def
      sublist_code(3))

end
